theory Spec2Isabelle
  imports Complex_Main
begin

section \<open>Python values and exceptions\<close>

text \<open>
  The notebooks handle decoded JSON documents with Python's subscripting, truth test and
  iteration. A decoded document is a value of \<open>json\<close>: \<open>JNull\<close> is \<open>None\<close>, a
  \<open>JObj\<close> is a \<open>dict\<close> given by its items in order (a key is looked up at its first
  item), a \<open>JArr\<close> is a \<open>list\<close>. Numbers are only ever passed on or tested for zero.
\<close>

datatype json =
    JNull
  | JBool bool
  | JNum real
  | JStr string
  | JArr "json list"
  | JObj "(string \<times> json) list"

datatype error =
    NameError string
  | UnboundLocalError string
  | AttributeError string
  | KeyError string
  | IndexError
  | TypeError
  | ValueError
  | TraceException string

definition digit :: "nat \<Rightarrow> char" where
  "digit d = char_of (48 + d)"

function str_nat :: "nat \<Rightarrow> string" where
  "str_nat n = (if n < 10 then [digit n] else str_nat (n div 10) @ [digit (n mod 10)])"
  by pat_completeness auto
termination
  by (relation "measure id") auto

declare str_nat.simps [simp del]

text \<open>\<open>str(n)\<close> of a Python \<open>int\<close>.\<close>

definition str_int :: "int \<Rightarrow> string" where
  "str_int i = (if i < 0 then CHR ''-'' # str_nat (nat (- i)) else str_nat (nat i))"

text \<open>\<open>obj[key]\<close> with a string key.\<close>

fun getitem_key :: "json \<Rightarrow> string \<Rightarrow> error + json" where
  "getitem_key (JObj kvs) k = (case map_of kvs k of None \<Rightarrow> Inl (KeyError k) | Some v \<Rightarrow> Inr v)"
| "getitem_key _ k = Inl TypeError"

text \<open>\<open>obj[i]\<close> with a non-negative integer literal.\<close>

fun getitem_index :: "json \<Rightarrow> nat \<Rightarrow> error + json" where
  "getitem_index (JArr xs) i = (if i < length xs then Inr (xs ! i) else Inl IndexError)"
| "getitem_index (JStr s) i = (if i < length s then Inr (JStr [s ! i]) else Inl IndexError)"
| "getitem_index (JObj kvs) i = Inl (KeyError (str_nat i))"
| "getitem_index _ i = Inl TypeError"

text \<open>The truth test of \<open>if obj:\<close> and \<open>not obj\<close>.\<close>

fun truthy :: "json \<Rightarrow> bool" where
  "truthy JNull = False"
| "truthy (JBool b) = b"
| "truthy (JNum x) = (x \<noteq> 0)"
| "truthy (JStr s) = (s \<noteq> [])"
| "truthy (JArr xs) = (xs \<noteq> [])"
| "truthy (JObj kvs) = (kvs \<noteq> [])"

text \<open>Iteration (\<open>for x in obj\<close>, \<open>itertools.chain.from_iterable\<close>).\<close>

fun iterate :: "json \<Rightarrow> error + json list" where
  "iterate (JArr xs) = Inr xs"
| "iterate (JObj kvs) = Inr (map JStr (remdups (map fst kvs)))"
| "iterate (JStr s) = Inr (map (\<lambda>c. JStr [c]) s)"
| "iterate _ = Inl TypeError"

text \<open>
  An exception ends the evaluation: \<open>and_then\<close> passes the first one on;
  \<open>map_raise\<close> is a list comprehension whose element expression may raise.
\<close>

definition and_then :: "error + 'a \<Rightarrow> ('a \<Rightarrow> error + 'b) \<Rightarrow> error + 'b" where
  "and_then m f = (case m of Inl e \<Rightarrow> Inl e | Inr v \<Rightarrow> f v)"

fun map_raise :: "('a \<Rightarrow> error + 'b) \<Rightarrow> 'a list \<Rightarrow> error + 'b list" where
  "map_raise f [] = Inr []"
| "map_raise f (x # xs) = and_then (f x) (\<lambda>y. and_then (map_raise f xs) (\<lambda>ys. Inr (y # ys)))"

text \<open>Reading a local variable that may not have been assigned yet.\<close>

definition local_var :: "string \<Rightarrow> 'a option \<Rightarrow> error + 'a" where
  "local_var name v = (case v of None \<Rightarrow> Inl (UnboundLocalError name) | Some x \<Rightarrow> Inr x)"

section \<open>HTTP and the notebook's world\<close>

text \<open>
  A response of \<open>requests.get\<close>: its status code and what \<open>.json()\<close> decodes
  (\<open>None\<close> when the body is not JSON, where \<open>.json()\<close> raises a \<open>ValueError\<close>).
\<close>

record response =
  status_code :: int
  body :: "json option"

definition response_json :: "response \<Rightarrow> error + json" where
  "response_json resp = (case body resp of None \<Rightarrow> Inl ValueError | Some j \<Rightarrow> Inr j)"

text \<open>
  A query parameter: a text, a flag, a number, a value taken from a decoded document, or
  the text \<open>"POINT({} {})".format(x, y)\<close>.
\<close>

datatype param =
    PText string
  | PFlag bool
  | PNumber real
  | PValue json
  | PWktPoint real real

type_synonym request = "string \<times> (string \<times> param) list"

text \<open>
  The world outside the functions: the HTTP requests issued so far, and the lines
  printed. The services are a sequence of responses: the \<open>k\<close>-th request issued
  (from 0) is answered by \<open>svc k\<close>.
\<close>

record world =
  requests :: "request list"
  stdout :: "string list"

type_synonym service = "nat \<Rightarrow> response"

definition requests_get :: "service \<Rightarrow> string \<Rightarrow> (string \<times> param) list \<Rightarrow> world \<Rightarrow> response \<times> world" where
  "requests_get svc url params w =
     (svc (length (requests w)), w\<lparr>requests := requests w @ [(url, params)]\<rparr>)"

definition print_line :: "string \<Rightarrow> world \<Rightarrow> world" where
  "print_line s w = w\<lparr>stdout := stdout w @ [s]\<rparr>"

section \<open>Geometries and snapped points\<close>

datatype geometry =
    Point json json int
  | Polyline "json list list" int

text \<open>
  The dict \<open>get_epa_snap_point\<close> returns, with its keys \<open>geometry\<close>, \<open>measure\<close>
  and \<open>id\<close>.
\<close>

record snap_point =
  sp_geometry :: geometry
  sp_measure :: json
  sp_id :: json

section \<open>The trace request and its retry loop\<close>

text \<open>
  \<open>get_epa_trace_response\<close> (src/resources/epa_water_prototyping.ipynb, lines 92 to
  117): the query of the request, then the loop.
\<close>

definition trace_url :: string where
  "trace_url = ''https://ofmpub.epa.gov/waters10/UpstreamDownStream.Service''"

definition trace_queryString :: "snap_point \<Rightarrow> snap_point \<Rightarrow> (string \<times> param) list" where
  "trace_queryString putin_point takeout_point =
     [(''pNavigationType'', PText ''PP''),
      (''pStartComID'', PValue (sp_id putin_point)),
      (''pStartMeasure'', PValue (sp_measure putin_point)),
      (''pStopComid'', PValue (sp_id takeout_point)),
      (''pStopMeasure'', PValue (sp_measure takeout_point)),
      (''pFlowlinelist'', PFlag True),
      (''pTraversalSummary'', PFlag True),
      (''f'', PText ''json'')]"

text \<open>
  The loop reads \<open>r.status_code\<close>. No statement of \<open>get_epa_trace_response\<close> assigns
  \<open>r\<close>, so the name is looked up among the module's globals: it is unbound
  (\<open>None\<close>), or bound to a response, or bound to an object with no such attribute.
\<close>

datatype pyobj = Response response | Other

definition r_status_code :: "pyobj option \<Rightarrow> error + int" where
  "r_status_code r =
     (case r of
        None \<Rightarrow> Inl (NameError ''r'')
      | Some (Response x) \<Rightarrow> Inr (status_code x)
      | Some Other \<Rightarrow> Inl (AttributeError ''status_code''))"

text \<open>The line printed after a failed attempt: \<open>{:02d}\<close> pads the count to two
  digits.\<close>

definition fmt_02d :: "nat \<Rightarrow> string" where
  "fmt_02d n = (if n < 10 then CHR ''0'' # str_nat n else str_nat n)"

definition attempt_failed :: "nat \<Rightarrow> int \<Rightarrow> string" where
  "attempt_failed attempts sc =
     ''Attempt '' @ fmt_02d attempts @ '' failed with status code '' @ str_int sc"

text \<open>
  The \<open>while\<close> loop, with the function's local variables as arguments:
  \<open>attempts\<close>, \<open>status_code\<close> (here \<open>sc\<close>, the record field has the name) and
  \<open>resp\<close>, which holds nothing before the first request. Each iteration issues the
  request, counts it, reads \<open>r.status_code\<close> and prints a line unless that is 200.
  After the loop comes \<open>return resp\<close>.
\<close>

function trace_loop ::
  "pyobj option \<Rightarrow> service \<Rightarrow> (string \<times> param) list \<Rightarrow> nat \<Rightarrow> int \<Rightarrow> response option \<Rightarrow> world
     \<Rightarrow> (error + response) \<times> world" where
  "trace_loop r svc queryString attempts sc resp w =
     (if attempts < 10 \<and> sc \<noteq> 200 then
        (case requests_get svc trace_url queryString w of
           (resp', w1) \<Rightarrow>
             (case r_status_code r of
                Inl e \<Rightarrow> (Inl e, w1)
              | Inr sc' \<Rightarrow>
                  trace_loop r svc queryString (attempts + 1) sc' (Some resp')
                    (if sc' \<noteq> 200 then print_line (attempt_failed (attempts + 1) sc') w1 else w1)))
      else
        (case resp of
           None \<Rightarrow> (Inl (UnboundLocalError ''resp''), w)
         | Some x \<Rightarrow> (Inr x, w)))"
  by pat_completeness auto
termination
  by (relation "measure (\<lambda>(r, svc, queryString, attempts, sc, resp, w). 10 - attempts)") auto

declare trace_loop.simps [simp del]

definition get_epa_trace_response ::
  "pyobj option \<Rightarrow> service \<Rightarrow> snap_point \<Rightarrow> snap_point \<Rightarrow> world \<Rightarrow> (error + response) \<times> world" where
  "get_epa_trace_response r svc putin_point takeout_point w =
     trace_loop r svc (trace_queryString putin_point takeout_point) 0 0 None w"

text \<open>What a run shows of itself: the error raised or that a response came back, the
  requests issued and the lines printed.\<close>

definition outcome :: "(error + response) \<times> world \<Rightarrow> (error + unit) \<times> world" where
  "outcome x = (map_sum id (\<lambda>_. ()) (fst x), snd x)"

text \<open>A status of success, 200 to 299.\<close>

definition is_2xx :: "int \<Rightarrow> bool" where
  "is_2xx sc = (200 \<le> sc \<and> sc \<le> 299)"

section \<open>From a trace response to a polyline\<close>

text \<open>
  \<open>epa_trace_resp_to_esri_geom\<close> (lines 119 to 129 of the same notebook). The test
  and the comprehension each decode the response and subscript it; the comprehension
  takes \<open>feature['shape']['coordinates']\<close> of every feature, and
  \<open>chain.from_iterable\<close> iterates over each of these in turn. The geometry built has
  the single path \<open>geom_list\<close> and the spatial reference 4326.
\<close>

definition epa_trace_resp_to_esri_geom :: "response \<Rightarrow> error + geometry option" where
  "epa_trace_resp_to_esri_geom trace_response =
     and_then (response_json trace_response) (\<lambda>j.
     and_then (getitem_key j ''output'') (\<lambda>out.
     and_then (getitem_key out ''flowlines_traversed'') (\<lambda>traversed.
       if truthy traversed then
         and_then (response_json trace_response) (\<lambda>j'.
         and_then (getitem_key j' ''output'') (\<lambda>out'.
         and_then (getitem_key out' ''flowlines_traversed'') (\<lambda>traversed'.
         and_then (iterate traversed') (\<lambda>features.
         and_then (map_raise (\<lambda>feature.
             and_then (getitem_key feature ''shape'') (\<lambda>shape.
             getitem_key shape ''coordinates'')) features) (\<lambda>geom_lists.
         and_then (map_raise iterate geom_lists) (\<lambda>parts.
           Inr (Some (Polyline [concat parts] 4326))))))))
       else Inr None)))"

section \<open>Snapping a point\<close>

text \<open>\<open>get_epa_point_indexing\<close> and \<open>get_epa_snap_point\<close> (lines 57 to 90).\<close>

definition point_indexing_url :: string where
  "point_indexing_url = ''https://ofmpub.epa.gov/waters10/PointIndexing.Service''"

definition point_indexing_queryString :: "real \<Rightarrow> real \<Rightarrow> real \<Rightarrow> bool \<Rightarrow> (string \<times> param) list" where
  "point_indexing_queryString x y search_distance return_geometry =
     [(''pGeometry'', PWktPoint x y),
      (''pGeometryMod'', PText ''WKT,SRSNAME=urn:ogc:def:crs:OGC::CRS84''),
      (''pPointIndexingMethod'', PText ''DISTANCE''),
      (''pPointIndexingMaxDist'', PNumber search_distance),
      (''pOutputPathFlag'', PFlag True),
      (''pReturnFlowlineGeomFlag'', PFlag return_geometry),
      (''optOutCS'', PText ''SRSNAME=urn:ogc:def:crs:OGC::CRS84''),
      (''optOutPrettyPrint'', PNumber 0),
      (''f'', PText ''json'')]"

definition get_epa_point_indexing ::
  "service \<Rightarrow> real \<Rightarrow> real \<Rightarrow> real \<Rightarrow> bool \<Rightarrow> world \<Rightarrow> (error + json) \<times> world" where
  "get_epa_point_indexing svc x y search_distance return_geometry w =
     (case requests_get svc point_indexing_url
             (point_indexing_queryString x y search_distance return_geometry) w of
        (r, w1) \<Rightarrow> (response_json r, w1))"

text \<open>The call \<open>get_epa_point_indexing(x, y)\<close> leaves the defaults: a search distance
  of 5 and no flowline geometry.\<close>

definition get_epa_snap_point :: "service \<Rightarrow> real \<Rightarrow> real \<Rightarrow> world \<Rightarrow> (error + snap_point) \<times> world" where
  "get_epa_snap_point svc x y w =
     (case get_epa_point_indexing svc x y 5 False w of
        (Inl e, w1) \<Rightarrow> (Inl e, w1)
      | (Inr rjson, w1) \<Rightarrow>
          (and_then (getitem_key rjson ''output'') (\<lambda>out.
           and_then (getitem_key out ''end_point'') (\<lambda>end_point.
           and_then (getitem_key end_point ''coordinates'') (\<lambda>coords.
           and_then (getitem_index coords 0) (\<lambda>c0.
           and_then (getitem_index coords 1) (\<lambda>c1.
           and_then (getitem_key rjson ''output'') (\<lambda>out_m.
           and_then (getitem_key out_m ''ary_flowlines'') (\<lambda>flowlines_m.
           and_then (getitem_index flowlines_m 0) (\<lambda>flowline_m.
           and_then (getitem_key flowline_m ''fmeasure'') (\<lambda>fmeasure.
           and_then (getitem_key rjson ''output'') (\<lambda>out_i.
           and_then (getitem_key out_i ''ary_flowlines'') (\<lambda>flowlines_i.
           and_then (getitem_index flowlines_i 0) (\<lambda>flowline_i.
           and_then (getitem_key flowline_i ''comid'') (\<lambda>comid.
             Inr \<lparr>sp_geometry = Point c0 c1 4326, sp_measure = fmeasure, sp_id = comid\<rparr>
           ))))))))))))), w1))"

text \<open>\<open>not epa_putin\<close> on the returned dict: a dict with three items is never empty.\<close>

definition truthy_snap :: "snap_point \<Rightarrow> bool" where
  "truthy_snap p = True"

section \<open>The access table\<close>

text \<open>\<open>_get_access_from_sdf\<close> and its two callers (lines 131 to 161). A name cannot
  start with an underscore here, so the function is \<open>get_access_from_sdf\<close>.\<close>

text \<open>A cell of the table, or an argument: an \<open>int\<close>, a \<open>str\<close> or \<open>None\<close>.\<close>

datatype pyval = PInt int | PStr string | PNone

fun py_str :: "pyval \<Rightarrow> string" where
  "py_str (PInt i) = str_int i"
| "py_str (PStr s) = s"
| "py_str PNone = ''None''"

fun is_str :: "pyval \<Rightarrow> bool" where
  "is_str (PStr s) = True"
| "is_str _ = False"

text \<open>A row of the access table: the columns \<open>reach_id\<close>, \<open>type\<close> and \<open>SHAPE\<close>
  (the point's \<open>x\<close> and \<open>y\<close>).\<close>

record access =
  row_reach_id :: pyval
  row_type :: pyval
  row_SHAPE :: "real \<times> real"

text \<open>\<open>sdf[(sdf.reach_id == reach_id) & (sdf.type == access_type)]\<close>: the rows whose
  two cells equal the two values, in the table's order.\<close>

definition access_rows :: "access list \<Rightarrow> pyval \<Rightarrow> pyval \<Rightarrow> access list" where
  "access_rows sdf reach_id access_type =
     filter (\<lambda>row. row_reach_id row = reach_id \<and> row_type row = access_type) sdf"

definition get_access_from_sdf :: "access list \<Rightarrow> pyval \<Rightarrow> pyval \<Rightarrow> error + access" where
  "get_access_from_sdf sdf reach_id access_type =
     (let reach_id' = PStr (py_str reach_id) in
      if access_type \<noteq> PStr ''putin'' \<and> access_type \<noteq> PStr ''takeout'' then
        Inl (TraceException ''access_type must be either putin or takeout'')
      else if \<not> is_str reach_id' then
        Inl (TraceException ''reach_id must be a string representation of an integer'')
      else
        (let access_sdf = access_rows sdf reach_id' access_type in
         if length access_sdf = 1 then Inr (access_sdf ! 0)
         else if length access_sdf > 1 then
           Inl (TraceException (''more than one '' @ py_str access_type @ '' exists''))
         else
           Inl (TraceException (''does not have a '' @ py_str reach_id'))))"

definition get_putin_from_sdf :: "access list \<Rightarrow> pyval \<Rightarrow> error + access" where
  "get_putin_from_sdf sdf reach_id = get_access_from_sdf sdf reach_id (PStr ''putin'')"

definition get_takeout_from_sdf :: "access list \<Rightarrow> pyval \<Rightarrow> error + access" where
  "get_takeout_from_sdf sdf reach_id = get_access_from_sdf sdf reach_id (PStr ''takeout'')"

text \<open>
  What the specification calls the records of a type that exist for a reach id, said
  without the lookup's own comparison: a row belongs to the reach when its reach id
  cell, an \<open>int\<close> or a \<open>str\<close>, reads as the reach id does, and it is of the type
  when its type cell is the type.
\<close>

fun reads_as :: "pyval \<Rightarrow> string \<Rightarrow> bool" where
  "reads_as (PInt i) s = (str_int i = s)"
| "reads_as (PStr t) s = (t = s)"
| "reads_as PNone s = False"

definition records_for_reach :: "access list \<Rightarrow> pyval \<Rightarrow> pyval \<Rightarrow> access list" where
  "records_for_reach sdf reach_id access_type =
     filter (\<lambda>row. reads_as (row_reach_id row) (py_str reach_id) \<and> row_type row = access_type) sdf"

section \<open>Snapping and tracing a reach of the table\<close>

text \<open>\<open>get_geometries_from_sdf_by_reach_id\<close> (lines 163 to 187).\<close>

record geom_dict =
  putin_point :: "geometry option"
  takeout_point :: "geometry option"
  reach_line :: "geometry option"

text \<open>
  The function tests \<open>epa_putin\<close> and \<open>epa_takeout\<close> before the statements that
  assign them. Both are local names of the function (it assigns them further down), so
  at the tests they hold nothing yet.
\<close>

definition get_geometries_from_sdf_by_reach_id ::
  "pyobj option \<Rightarrow> service \<Rightarrow> access list \<Rightarrow> pyval \<Rightarrow> world \<Rightarrow> (error + geom_dict) \<times> world" where
  "get_geometries_from_sdf_by_reach_id r svc sdf reach_id w =
     (case get_putin_from_sdf sdf reach_id of Inl e \<Rightarrow> (Inl e, w) | Inr putin \<Rightarrow>
     (case get_takeout_from_sdf sdf reach_id of Inl e \<Rightarrow> (Inl e, w) | Inr takeout \<Rightarrow>
     (case local_var ''epa_putin'' None of Inl e \<Rightarrow> (Inl e, w) | Inr not_yet_putin \<Rightarrow>
      if \<not> truthy_snap not_yet_putin then
        (Inl (TraceException ''putin cannot be snapped to a hydroline''), w) else
     (case local_var ''epa_takeout'' None of Inl e \<Rightarrow> (Inl e, w) | Inr not_yet_takeout \<Rightarrow>
      if \<not> truthy_snap not_yet_takeout then
        (Inl (TraceException ''takeout cannot be snapped to a hydroline''), w) else
     (case get_epa_snap_point svc (fst (row_SHAPE putin)) (snd (row_SHAPE putin)) w of
        (Inl e, w1) \<Rightarrow> (Inl e, w1) | (Inr epa_putin, w1) \<Rightarrow>
     (case get_epa_snap_point svc (fst (row_SHAPE takeout)) (snd (row_SHAPE takeout)) w1 of
        (Inl e, w2) \<Rightarrow> (Inl e, w2) | (Inr epa_takeout, w2) \<Rightarrow>
     (case get_epa_trace_response r svc epa_putin epa_takeout w2 of
        (Inl e, w3) \<Rightarrow> (Inl e, w3) | (Inr epa_trace, w3) \<Rightarrow>
     (case epa_trace_resp_to_esri_geom epa_trace of
        Inl e \<Rightarrow> (Inl e, w3)
      | Inr line \<Rightarrow>
          (Inr \<lparr>putin_point = Some (sp_geometry epa_putin),
                takeout_point = Some (sp_geometry epa_takeout),
                reach_line = line\<rparr>, w3)))))))))"

section \<open>Publishing a reach\<close>

text \<open>Modelled from the spec: a record of a remote feature collection, keyed by its
  \<open>reach_id\<close> attribute. The layer classes of \<open>reach_tools\<close> are not among the
  sources.\<close>

record feature =
  feature_reach_id :: string
  feature_geometry :: "geometry option"

text \<open>Modelled from the spec: the three remote collections (line, centroid, point).\<close>

record collections =
  line_layer :: "feature list"
  centroid_layer :: "feature list"
  point_layer :: "feature list"

text \<open>Modelled from the spec: a Reach with its traced line, its centroid and its two
  access points. The class \<open>Reach\<close> of \<open>reach_tools\<close> is not among the sources.\<close>

record reach =
  reach_reach_id :: string
  reach_geometry :: "geometry option"
  reach_centroid :: "geometry option"
  reach_putin :: "geometry option"
  reach_takeout :: "geometry option"

text \<open>Modelled from the spec: the upsert of section 4.3, "delete any existing record(s)
  for that id, then insert the new one". The layer methods it stands for are not among
  the sources.\<close>

definition upsert :: "string \<Rightarrow> feature list \<Rightarrow> feature list \<Rightarrow> feature list" where
  "upsert rid new coll = filter (\<lambda>f. feature_reach_id f \<noteq> rid) coll @ new"

text \<open>Modelled from the spec: \<open>Reach.publish\<close>, which "upserts three records (line,
  centroid, each point) into their respective remote collections, keyed by reach id".
  The method is not among the sources; only its calls are.\<close>

definition publish :: "reach \<Rightarrow> collections \<Rightarrow> collections" where
  "publish rch c =
     \<lparr>line_layer =
        upsert (reach_reach_id rch)
          [\<lparr>feature_reach_id = reach_reach_id rch, feature_geometry = reach_geometry rch\<rparr>]
          (line_layer c),
      centroid_layer =
        upsert (reach_reach_id rch)
          [\<lparr>feature_reach_id = reach_reach_id rch, feature_geometry = reach_centroid rch\<rparr>]
          (centroid_layer c),
      point_layer =
        upsert (reach_reach_id rch)
          [\<lparr>feature_reach_id = reach_reach_id rch, feature_geometry = reach_putin rch\<rparr>,
           \<lparr>feature_reach_id = reach_reach_id rch, feature_geometry = reach_takeout rch\<rparr>]
          (point_layer c)\<rparr>"

section \<open>Sample data\<close>

text \<open>The notebook's own run: no request issued, nothing printed.\<close>

definition fresh_world :: world where
  "fresh_world = \<lparr>requests = [], stdout = []\<rparr>"

definition failure_503 :: response where
  "failure_503 = \<lparr>status_code = 503, body = None\<rparr>"

definition failure_500 :: response where
  "failure_500 = \<lparr>status_code = 500, body = None\<rparr>"

text \<open>A service that fails \<open>n\<close> times and then answers \<open>ok\<close>.\<close>

definition fails_then :: "nat \<Rightarrow> response \<Rightarrow> service" where
  "fails_then n ok k = (if k < n then failure_503 else ok)"

definition snapped_putin :: snap_point where
  "snapped_putin = \<lparr>sp_geometry = Point (JNum (-121)) (JNum 45) 4326, sp_measure = JNum 40, sp_id = JNum 23997492\<rparr>"

definition snapped_takeout :: snap_point where
  "snapped_takeout = \<lparr>sp_geometry = Point (JNum (-122)) (JNum 44) 4326, sp_measure = JNum 75, sp_id = JNum 23997480\<rparr>"

text \<open>The reach of the notebook's end-to-end run, with a second reach beside it.\<close>

definition putin_2270 :: access where
  "putin_2270 = \<lparr>row_reach_id = PStr ''2270'', row_type = PStr ''putin'', row_SHAPE = (-121.634402, 45.794848)\<rparr>"

definition takeout_2270 :: access where
  "takeout_2270 = \<lparr>row_reach_id = PStr ''2270'', row_type = PStr ''takeout'', row_SHAPE = (-121.645582, 45.718817)\<rparr>"

definition access_table :: "access list" where
  "access_table =
     [\<lparr>row_reach_id = PStr ''2156'', row_type = PStr ''putin'', row_SHAPE = (-121.63, 45.8)\<rparr>,
      putin_2270,
      \<lparr>row_reach_id = PStr ''2270'', row_type = PStr ''intermediate'', row_SHAPE = (-121.64, 45.75)\<rparr>,
      takeout_2270]"

text \<open>The same reach in a table read from CSV as it stands: the \<open>reach_id\<close> column
  holds \<open>int\<close> cells.\<close>

definition int_putin_2270 :: access where
  "int_putin_2270 = \<lparr>row_reach_id = PInt 2270, row_type = PStr ''putin'', row_SHAPE = (-121.634402, 45.794848)\<rparr>"

definition int_access_table :: "access list" where
  "int_access_table =
     [int_putin_2270,
      \<lparr>row_reach_id = PInt 2270, row_type = PStr ''takeout'', row_SHAPE = (-121.645582, 45.718817)\<rparr>]"

text \<open>Answers of the snapping service: no candidate flowline at all; a snapped point
  on a flowline; a flowline with no feature id.\<close>

definition no_candidate :: response where
  "no_candidate = \<lparr>status_code = 200, body = Some (JObj [(''output'', JNull)])\<rparr>"

definition snapped :: response where
  "snapped = \<lparr>status_code = 200, body = Some (JObj [(''output'', JObj
     [(''ary_flowlines'', JArr [JObj [(''comid'', JNum 23997492), (''fmeasure'', JNum 40)],
                                JObj [(''comid'', JNum 23997480), (''fmeasure'', JNum 75)]]),
      (''end_point'', JObj [(''type'', JStr ''Point''), (''coordinates'', JArr [JNum (-121), JNum 45])])])])\<rparr>"

definition snapped_without_id :: response where
  "snapped_without_id = \<lparr>status_code = 200, body = Some (JObj [(''output'', JObj
     [(''ary_flowlines'', JArr [JObj [(''comid'', JNull), (''fmeasure'', JNum 40)]]),
      (''end_point'', JObj [(''type'', JStr ''Point''), (''coordinates'', JArr [JNum (-121), JNum 45])])])])\<rparr>"

text \<open>Answers of the trace service: no flowline traversed; two flowlines traversed.\<close>

definition empty_trace :: response where
  "empty_trace = \<lparr>status_code = 200, body = Some (JObj [(''output'', JObj
     [(''flowlines_traversed'', JArr [])])])\<rparr>"

definition segment_a :: json where
  "segment_a = JObj [(''comid'', JNum 23997492),
     (''shape'', JObj [(''type'', JStr ''LineString''),
        (''coordinates'', JArr [JArr [JNum 1, JNum 2], JArr [JNum 3, JNum 4]])])]"

definition segment_b :: json where
  "segment_b = JObj [(''comid'', JNum 23997480),
     (''shape'', JObj [(''type'', JStr ''LineString''),
        (''coordinates'', JArr [JArr [JNum 3, JNum 4], JArr [JNum 5, JNum 6]])])]"

definition two_segment_trace :: response where
  "two_segment_trace = \<lparr>status_code = 200, body = Some (JObj [(''output'', JObj
     [(''flowlines_traversed'', JArr [segment_a, segment_b])])])\<rparr>"

section \<open>Evaluation lemmas\<close>

lemma and_then_Inr: "and_then (Inr v) f = f v"
  by (simp add: and_then_def)

lemma and_then_Inl: "and_then (Inl e) f = Inl e"
  by (simp add: and_then_def)

lemma str_int_2270: "str_int 2270 = ''2270''"
  by code_simp

lemma access_rows_putin_2270:
  "access_rows access_table (PStr ''2270'') (PStr ''putin'') = [putin_2270]"
  by (simp add: access_rows_def access_table_def putin_2270_def takeout_2270_def)

lemma access_rows_takeout_2270:
  "access_rows access_table (PStr ''2270'') (PStr ''takeout'') = [takeout_2270]"
  by (simp add: access_rows_def access_table_def putin_2270_def takeout_2270_def)

section \<open>The retry loop, step by step\<close>

lemma trace_loop_stop:
  "\<not> (attempts < 10 \<and> sc \<noteq> 200) \<Longrightarrow>
   trace_loop r svc q attempts sc resp w =
     (case resp of None \<Rightarrow> (Inl (UnboundLocalError ''resp''), w) | Some x \<Rightarrow> (Inr x, w))"
  by (subst trace_loop.simps) auto

lemma trace_loop_step:
  "attempts < 10 \<Longrightarrow> sc \<noteq> 200 \<Longrightarrow>
   trace_loop r svc q attempts sc resp w =
     (case r_status_code r of
        Inl e \<Rightarrow> (Inl e, snd (requests_get svc trace_url q w))
      | Inr sc' \<Rightarrow>
          trace_loop r svc q (attempts + 1) sc' (Some (fst (requests_get svc trace_url q w)))
            (if sc' \<noteq> 200
             then print_line (attempt_failed (attempts + 1) sc') (snd (requests_get svc trace_url q w))
             else snd (requests_get svc trace_url q w)))"
  by (subst trace_loop.simps) (simp add: requests_get_def split: sum.splits)

lemma trace_loop_unbound:
  "attempts < 10 \<Longrightarrow> sc \<noteq> 200 \<Longrightarrow>
   trace_loop None svc q attempts sc resp w =
     (Inl (NameError ''r''), w\<lparr>requests := requests w @ [(trace_url, q)]\<rparr>)"
  by (simp add: trace_loop_step r_status_code_def requests_get_def)

lemma trace_loop_no_attribute:
  "attempts < 10 \<Longrightarrow> sc \<noteq> 200 \<Longrightarrow>
   trace_loop (Some Other) svc q attempts sc resp w =
     (Inl (AttributeError ''status_code''), w\<lparr>requests := requests w @ [(trace_url, q)]\<rparr>)"
  by (simp add: trace_loop_step r_status_code_def requests_get_def)

lemma trace_loop_stale_200:
  "attempts < 10 \<Longrightarrow> sc \<noteq> 200 \<Longrightarrow> status_code x = 200 \<Longrightarrow>
   trace_loop (Some (Response x)) svc q attempts sc resp w =
     (Inr (svc (length (requests w))), w\<lparr>requests := requests w @ [(trace_url, q)]\<rparr>)"
  by (simp add: trace_loop_step trace_loop_stop r_status_code_def requests_get_def)

lemma trace_loop_stale_failing:
  "status_code x \<noteq> 200 \<Longrightarrow> sc \<noteq> 200 \<Longrightarrow> attempts < 10 \<Longrightarrow>
   trace_loop (Some (Response x)) svc q attempts sc resp w =
     (Inr (svc (length (requests w) + (9 - attempts))),
      w\<lparr>requests := requests w @ replicate (10 - attempts) (trace_url, q),
        stdout := stdout w @ map (\<lambda>k. attempt_failed k (status_code x)) [attempts + 1 ..< 11]\<rparr>)"
proof (induction "10 - attempts" arbitrary: attempts sc resp w)
  case 0
  then show ?case by simp
next
  case (Suc n)
  have r: "r_status_code (Some (Response x)) = Inr (status_code x)"
    by (simp add: r_status_code_def)
  show ?case
  proof (cases "attempts = 9")
    case True
    with Suc.prems r show ?thesis
      by (simp add: trace_loop_step trace_loop_stop requests_get_def print_line_def)
  next
    case False
    with Suc.prems Suc.hyps(2) have n: "n = 10 - Suc attempts" and lt: "Suc attempts < 10"
      by arith+
    let ?w1 = "print_line (attempt_failed (Suc attempts) (status_code x))
                 (w\<lparr>requests := requests w @ [(trace_url, q)]\<rparr>)"
    have st: "trace_loop (Some (Response x)) svc q attempts sc resp w =
              trace_loop (Some (Response x)) svc q (Suc attempts) (status_code x)
                (Some (svc (length (requests w)))) ?w1"
      using Suc.prems r by (simp add: trace_loop_step requests_get_def)
    have ih: "trace_loop (Some (Response x)) svc q (Suc attempts) (status_code x)
                (Some (svc (length (requests w)))) ?w1 =
              (Inr (svc (length (requests ?w1) + (9 - Suc attempts))),
               ?w1\<lparr>requests := requests ?w1 @ replicate (10 - Suc attempts) (trace_url, q),
                 stdout := stdout ?w1 @ map (\<lambda>k. attempt_failed k (status_code x)) [Suc attempts + 1 ..< 11]\<rparr>)"
      by (rule Suc.hyps(1)[OF n Suc.prems(1) Suc.prems(1) lt])
    have up: "[attempts + 1 ..< 11] = Suc attempts # [Suc attempts + 1 ..< 11]"
      using lt by (simp add: upt_conv_Cons)
    have rep: "replicate (10 - attempts) (trace_url, q) = (trace_url, q) # replicate (10 - Suc attempts) (trace_url, q)"
      using lt by (cases "10 - attempts") auto
    have nine: "length (requests ?w1) + (9 - Suc attempts) = length (requests w) + (9 - attempts)"
      using lt by (simp add: print_line_def)
    show ?thesis
      unfolding st ih up rep nine by (simp add: print_line_def)
  qed
qed

lemma trace_loop_blind:
  "(resp = None \<longleftrightarrow> resp' = None) \<Longrightarrow>
   outcome (trace_loop r svc q attempts sc resp w) = outcome (trace_loop r svc' q attempts sc resp' w)"
proof (induction "10 - attempts" arbitrary: attempts sc resp resp' w)
  case 0
  then show ?case
    by (auto simp: trace_loop_stop outcome_def split: option.splits)
next
  case (Suc n)
  show ?case
  proof (cases "sc = 200")
    case True
    with Suc.prems show ?thesis
      by (auto simp: trace_loop_stop outcome_def split: option.splits)
  next
    case False
    from Suc.hyps(2) have lt: "attempts < 10" and n: "n = 10 - (attempts + 1)"
      by arith+
    show ?thesis
    proof (cases "r_status_code r")
      case (Inl e)
      with False lt show ?thesis
        by (simp add: trace_loop_step outcome_def requests_get_def)
    next
      case (Inr sc')
      with False lt Suc.hyps(1)[OF n] show ?thesis
        by (simp add: trace_loop_step requests_get_def)
    qed
  qed
qed

section \<open>What a call of the trace function does\<close>

lemma get_epa_trace_response_unbound:
  "get_epa_trace_response None svc p t w =
     (Inl (NameError ''r''), w\<lparr>requests := requests w @ [(trace_url, trace_queryString p t)]\<rparr>)"
  by (simp add: get_epa_trace_response_def trace_loop_unbound)

lemma get_epa_trace_response_no_attribute:
  "get_epa_trace_response (Some Other) svc p t w =
     (Inl (AttributeError ''status_code''), w\<lparr>requests := requests w @ [(trace_url, trace_queryString p t)]\<rparr>)"
  by (simp add: get_epa_trace_response_def trace_loop_no_attribute)

lemma get_epa_trace_response_stale_200:
  "status_code x = 200 \<Longrightarrow>
   get_epa_trace_response (Some (Response x)) svc p t w =
     (Inr (svc (length (requests w))), w\<lparr>requests := requests w @ [(trace_url, trace_queryString p t)]\<rparr>)"
  by (simp add: get_epa_trace_response_def trace_loop_stale_200)

lemma get_epa_trace_response_stale_failing:
  "status_code x \<noteq> 200 \<Longrightarrow>
   get_epa_trace_response (Some (Response x)) svc p t w =
     (Inr (svc (length (requests w) + 9)),
      w\<lparr>requests := requests w @ replicate 10 (trace_url, trace_queryString p t),
        stdout := stdout w @ map (\<lambda>k. attempt_failed k (status_code x)) [1 ..< 11]\<rparr>)"
  using trace_loop_stale_failing[of x 0 0 svc "trace_queryString p t" None w]
  by (simp add: get_epa_trace_response_def)

lemma get_epa_trace_response_requests:
  "\<exists>n. (n = 1 \<or> n = 10) \<and>
     requests (snd (get_epa_trace_response r svc p t w)) =
       requests w @ replicate n (trace_url, trace_queryString p t)"
proof (cases r)
  case None
  then show ?thesis
    by (intro exI[of _ 1]) (simp add: get_epa_trace_response_unbound)
next
  case (Some obj)
  show ?thesis
  proof (cases obj)
    case Other
    with Some show ?thesis
      by (intro exI[of _ 1]) (simp add: get_epa_trace_response_no_attribute)
  next
    case (Response x)
    show ?thesis
    proof (cases "status_code x = 200")
      case True
      with Some Response show ?thesis
        by (intro exI[of _ 1]) (simp add: get_epa_trace_response_stale_200)
    next
      case False
      with Some Response show ?thesis
        by (intro exI[of _ 10]) (simp add: get_epa_trace_response_stale_failing)
    qed
  qed
qed

lemma get_epa_trace_response_ten_requests:
  assumes "length (requests (snd (get_epa_trace_response r svc p t w))) = length (requests w) + 10"
  shows "fst (get_epa_trace_response r svc p t w) = Inr (svc (length (requests w) + 9))"
proof (cases r)
  case None
  with assms show ?thesis by (simp add: get_epa_trace_response_unbound)
next
  case (Some obj)
  show ?thesis
  proof (cases obj)
    case Other
    with Some assms show ?thesis by (simp add: get_epa_trace_response_no_attribute)
  next
    case (Response x)
    with Some assms show ?thesis
      by (cases "status_code x = 200")
         (simp_all add: get_epa_trace_response_stale_200 get_epa_trace_response_stale_failing)
  qed
qed

section \<open>The claims about the trace request\<close>

text \<open>
  C1, as amended. The function has no statement that raises after the loop: it ends with
  \<open>return resp\<close>. In every run that issues ten requests, all answered with a status
  outside 200..299, the call returns the answer to the tenth request, a response whose
  status is outside 200..299; it raises nothing.
\<close>

theorem exhausted_budget_returns_last_response:
  assumes "length (requests (snd (get_epa_trace_response r svc p t w))) = length (requests w) + 10"
    and "\<forall>k<10. \<not> is_2xx (status_code (svc (length (requests w) + k)))"
  shows "fst (get_epa_trace_response r svc p t w) = Inr (svc (length (requests w) + 9))
         \<and> \<not> is_2xx (status_code (svc (length (requests w) + 9)))"
  using assms get_epa_trace_response_ten_requests[of r svc p t w] by simp

theorem exhausted_budget_returns_last_response_witness:
  "length (requests (snd (get_epa_trace_response (Some (Response failure_500)) (fails_then 10 failure_500)
       snapped_putin snapped_takeout fresh_world))) = length (requests fresh_world) + 10
   \<and> fst (get_epa_trace_response (Some (Response failure_500)) (fails_then 10 failure_500)
       snapped_putin snapped_takeout fresh_world) = Inr failure_503
   \<and> \<not> is_2xx (status_code failure_503)"
proof -
  have ten: "length (requests (snd (get_epa_trace_response (Some (Response failure_500)) (fails_then 10 failure_500)
       snapped_putin snapped_takeout fresh_world))) = length (requests fresh_world) + 10"
    by (simp add: get_epa_trace_response_stale_failing failure_500_def)
  have non2xx: "\<forall>k<10. \<not> is_2xx (status_code (fails_then 10 failure_500 (length (requests fresh_world) + k)))"
    by (simp add: fails_then_def failure_503_def is_2xx_def fresh_world_def)
  have last: "fails_then 10 failure_500 (length (requests fresh_world) + 9) = failure_503"
    by (simp add: fails_then_def fresh_world_def)
  from exhausted_budget_returns_last_response[OF ten non2xx] ten show ?thesis
    unfolding last by simp
qed

text \<open>
  C1 as stated fails: with a stale failing response bound to the global \<open>r\<close> and a
  service that answers 503 ten times, ten requests are issued, ten lines are printed, and
  the call returns the last 503 response instead of raising.
\<close>

theorem exhausted_budget_counterexample:
  "get_epa_trace_response (Some (Response failure_500)) (\<lambda>k. failure_503)
       snapped_putin snapped_takeout fresh_world =
     (Inr failure_503,
      \<lparr>requests = replicate 10 (trace_url, trace_queryString snapped_putin snapped_takeout),
        stdout = map (\<lambda>k. attempt_failed k 500) [1 ..< 11]\<rparr>)"
  by (simp add: get_epa_trace_response_stale_failing failure_500_def fresh_world_def)

text \<open>
  C2 at its failing input: in the notebook's own environment (no global \<open>r\<close>) the
  service fails once and would succeed at the second request. The call raises
  \<open>NameError\<close> after the first request; the claim expects the successful response
  after two attempts.
\<close>

theorem retry_loop_fails_once_then_succeeds:
  "get_epa_trace_response None (fails_then 1 \<lparr>status_code = 200, body = Some (JObj [])\<rparr>)
       snapped_putin snapped_takeout fresh_world =
     (Inl (NameError ''r''),
      \<lparr>requests = [(trace_url, trace_queryString snapped_putin snapped_takeout)], stdout = []\<rparr>)"
  by (simp add: get_epa_trace_response_unbound fresh_world_def)

text \<open>
  C9. For every pair of snapped points the query of the trace request holds the
  navigation type "PP", the put-in's id and measure as start parameters and the
  take-out's id and measure as stop parameters, and every request the call issues (one
  or ten of them) goes to the trace service with exactly this query.
\<close>

theorem trace_request_parameters:
  "map_of (trace_queryString p t) ''pNavigationType'' = Some (PText ''PP'')
   \<and> map_of (trace_queryString p t) ''pStartComID'' = Some (PValue (sp_id p))
   \<and> map_of (trace_queryString p t) ''pStartMeasure'' = Some (PValue (sp_measure p))
   \<and> map_of (trace_queryString p t) ''pStopComid'' = Some (PValue (sp_id t))
   \<and> map_of (trace_queryString p t) ''pStopMeasure'' = Some (PValue (sp_measure t))
   \<and> (\<exists>n. (n = 1 \<or> n = 10) \<and>
        requests (snd (get_epa_trace_response r svc p t w)) =
          requests w @ replicate n (trace_url, trace_queryString p t))"
  using get_epa_trace_response_requests[of r svc p t w]
  by (simp add: trace_queryString_def)

text \<open>
  C10. The status check reads \<open>r\<close>, which the function never assigns. Where \<open>r\<close>
  is unbound, the call raises \<open>NameError\<close> in the first iteration, after one
  request. In every environment the course of the call (the error raised or the fact
  that a response is returned, the requests issued, the lines printed) is the same
  whatever the service answers: the status of the response just received is never
  inspected.
\<close>

theorem status_check_reads_unassigned_r:
  "get_epa_trace_response None svc p t w =
     (Inl (NameError ''r''), w\<lparr>requests := requests w @ [(trace_url, trace_queryString p t)]\<rparr>)
   \<and> (\<forall>r svc'. outcome (get_epa_trace_response r svc p t w) = outcome (get_epa_trace_response r svc' p t w))"
proof
  show "get_epa_trace_response None svc p t w =
     (Inl (NameError ''r''), w\<lparr>requests := requests w @ [(trace_url, trace_queryString p t)]\<rparr>)"
    by (rule get_epa_trace_response_unbound)
  show "\<forall>r svc'. outcome (get_epa_trace_response r svc p t w) = outcome (get_epa_trace_response r svc' p t w)"
    by (simp add: get_epa_trace_response_def trace_loop_blind)
qed

section \<open>The claims about the traced line\<close>

lemma map_raise_coordinates:
  "list_all2 (\<lambda>segment cs. \<exists>shape. getitem_key segment ''shape'' = Inr shape
        \<and> getitem_key shape ''coordinates'' = Inr (JArr cs)) segments coordinate_lists \<Longrightarrow>
   map_raise (\<lambda>feature. and_then (getitem_key feature ''shape'')
        (\<lambda>shape. getitem_key shape ''coordinates'')) segments = Inr (map JArr coordinate_lists)"
  by (induction rule: list_all2_induct) (auto simp: and_then_Inr and_then_Inl)

lemma map_raise_iterate: "map_raise iterate (map JArr coordinate_lists) = Inr coordinate_lists"
  by (induction coordinate_lists) (simp_all add: and_then_Inr and_then_Inl)

text \<open>
  C4. For every trace response whose list of traversed flowlines is empty, the conversion
  returns \<open>None\<close> ("no path") and raises nothing: the result differs from every
  failure.
\<close>

theorem empty_trace_is_no_path:
  assumes "response_json trace_response = Inr j"
    and "getitem_key j ''output'' = Inr out"
    and "getitem_key out ''flowlines_traversed'' = Inr (JArr [])"
  shows "epa_trace_resp_to_esri_geom trace_response = Inr None
         \<and> (\<forall>e. epa_trace_resp_to_esri_geom trace_response \<noteq> Inl e)"
  using assms by (simp add: epa_trace_resp_to_esri_geom_def and_then_Inr and_then_Inl)

theorem empty_trace_is_no_path_witness:
  "response_json empty_trace = Inr (JObj [(''output'', JObj [(''flowlines_traversed'', JArr [])])])
   \<and> epa_trace_resp_to_esri_geom empty_trace = Inr None"
proof -
  have j: "response_json empty_trace = Inr (JObj [(''output'', JObj [(''flowlines_traversed'', JArr [])])])"
    by (simp add: response_json_def empty_trace_def)
  have out: "getitem_key (JObj [(''output'', JObj [(''flowlines_traversed'', JArr [])])]) ''output''
      = Inr (JObj [(''flowlines_traversed'', JArr [])])"
    by simp
  have traversed: "getitem_key (JObj [(''flowlines_traversed'', JArr [])]) ''flowlines_traversed'' = Inr (JArr [])"
    by simp
  from empty_trace_is_no_path[OF j out traversed] j show ?thesis
    by simp
qed

text \<open>
  C5. For every trace response with a non-empty list of traversed flowlines, each with a
  coordinate list under \<open>shape\<close>, the conversion returns a polyline with exactly one
  path: the segments' coordinate lists, concatenated in the order of the response.
\<close>

theorem traversed_segments_are_concatenated:
  assumes "response_json trace_response = Inr j"
    and "getitem_key j ''output'' = Inr out"
    and "getitem_key out ''flowlines_traversed'' = Inr (JArr segments)"
    and "segments \<noteq> []"
    and "list_all2 (\<lambda>segment cs. \<exists>shape. getitem_key segment ''shape'' = Inr shape
            \<and> getitem_key shape ''coordinates'' = Inr (JArr cs)) segments coordinate_lists"
  shows "epa_trace_resp_to_esri_geom trace_response =
           Inr (Some (Polyline [concat coordinate_lists] 4326))"
  using assms(1-4)
  by (simp add: epa_trace_resp_to_esri_geom_def and_then_Inr and_then_Inl
        map_raise_coordinates[OF assms(5)] map_raise_iterate)

theorem traversed_segments_are_concatenated_witness:
  "epa_trace_resp_to_esri_geom two_segment_trace =
     Inr (Some (Polyline [[JArr [JNum 1, JNum 2], JArr [JNum 3, JNum 4],
                           JArr [JNum 3, JNum 4], JArr [JNum 5, JNum 6]]] 4326))"
proof -
  have j: "response_json two_segment_trace =
      Inr (JObj [(''output'', JObj [(''flowlines_traversed'', JArr [segment_a, segment_b])])])"
    by (simp add: response_json_def two_segment_trace_def)
  have out: "getitem_key (JObj [(''output'', JObj [(''flowlines_traversed'', JArr [segment_a, segment_b])])]) ''output''
      = Inr (JObj [(''flowlines_traversed'', JArr [segment_a, segment_b])])"
    by simp
  have traversed: "getitem_key (JObj [(''flowlines_traversed'', JArr [segment_a, segment_b])]) ''flowlines_traversed''
      = Inr (JArr [segment_a, segment_b])"
    by simp
  have ne: "[segment_a, segment_b] \<noteq> []"
    by simp
  have each: "list_all2 (\<lambda>segment cs. \<exists>shape. getitem_key segment ''shape'' = Inr shape
            \<and> getitem_key shape ''coordinates'' = Inr (JArr cs)) [segment_a, segment_b]
          [[JArr [JNum 1, JNum 2], JArr [JNum 3, JNum 4]], [JArr [JNum 3, JNum 4], JArr [JNum 5, JNum 6]]]"
    by (simp add: segment_a_def segment_b_def)
  from traversed_segments_are_concatenated[OF j out traversed ne each] show ?thesis
    by simp
qed

section \<open>The claims about the snap\<close>

lemma get_epa_point_indexing_world:
  "get_epa_point_indexing svc x y d g w =
     (response_json (svc (length (requests w))),
      w\<lparr>requests := requests w @ [(point_indexing_url, point_indexing_queryString x y d g)]\<rparr>)"
  by (simp add: get_epa_point_indexing_def requests_get_def)

text \<open>
  C8, as amended. For every answer of the snapping service that holds an end point with
  at least two coordinates and a non-empty flowline array whose first flowline has the
  entries \<open>fmeasure\<close> and \<open>comid\<close>, the function returns the snapped coordinate,
  that \<open>fmeasure\<close> as the measure and that \<open>comid\<close> as the feature id, each as
  the service sent it, after one request to the snapping service. It checks neither the
  range of the measure nor that the id is not null.
\<close>

theorem snap_point_passes_on_service_values:
  assumes "response_json (svc (length (requests w))) = Inr rjson"
    and "getitem_key rjson ''output'' = Inr out"
    and "getitem_key out ''end_point'' = Inr end_point"
    and "getitem_key end_point ''coordinates'' = Inr (JArr (c0 # c1 # cs))"
    and "getitem_key out ''ary_flowlines'' = Inr (JArr (flowline # flowlines))"
    and "getitem_key flowline ''fmeasure'' = Inr fmeasure"
    and "getitem_key flowline ''comid'' = Inr comid"
  shows "get_epa_snap_point svc x y w =
           (Inr \<lparr>sp_geometry = Point c0 c1 4326, sp_measure = fmeasure, sp_id = comid\<rparr>,
            w\<lparr>requests := requests w @ [(point_indexing_url, point_indexing_queryString x y 5 False)]\<rparr>)"
  using assms
  by (simp add: get_epa_snap_point_def get_epa_point_indexing_world and_then_Inr)

theorem snap_point_passes_on_service_values_witness:
  "get_epa_snap_point (\<lambda>k. snapped) (-121.634402) 45.794848 fresh_world =
     (Inr \<lparr>sp_geometry = Point (JNum (-121)) (JNum 45) 4326, sp_measure = JNum 40, sp_id = JNum 23997492\<rparr>,
      \<lparr>requests = [(point_indexing_url, point_indexing_queryString (-121.634402) 45.794848 5 False)],
        stdout = []\<rparr>)"
proof -
  let ?out = "JObj
     [(''ary_flowlines'', JArr [JObj [(''comid'', JNum 23997492), (''fmeasure'', JNum 40)],
                                JObj [(''comid'', JNum 23997480), (''fmeasure'', JNum 75)]]),
      (''end_point'', JObj [(''type'', JStr ''Point''), (''coordinates'', JArr [JNum (-121), JNum 45])])]"
  have rjson: "response_json ((\<lambda>k. snapped) (length (requests fresh_world))) = Inr (JObj [(''output'', ?out)])"
    by (simp add: response_json_def snapped_def)
  have out: "getitem_key (JObj [(''output'', ?out)]) ''output'' = Inr ?out"
    by simp
  have end_point: "getitem_key ?out ''end_point''
      = Inr (JObj [(''type'', JStr ''Point''), (''coordinates'', JArr [JNum (-121), JNum 45])])"
    by simp
  have coords: "getitem_key (JObj [(''type'', JStr ''Point''), (''coordinates'', JArr [JNum (-121), JNum 45])])
      ''coordinates'' = Inr (JArr (JNum (-121) # JNum 45 # []))"
    by simp
  have flowlines: "getitem_key ?out ''ary_flowlines''
      = Inr (JArr (JObj [(''comid'', JNum 23997492), (''fmeasure'', JNum 40)]
                 # [JObj [(''comid'', JNum 23997480), (''fmeasure'', JNum 75)]]))"
    by simp
  have fmeasure: "getitem_key (JObj [(''comid'', JNum 23997492), (''fmeasure'', JNum 40)]) ''fmeasure'' = Inr (JNum 40)"
    by simp
  have comid: "getitem_key (JObj [(''comid'', JNum 23997492), (''fmeasure'', JNum 40)]) ''comid'' = Inr (JNum 23997492)"
    by simp
  from snap_point_passes_on_service_values[OF rjson out end_point coords flowlines fmeasure comid,
      of "-121.634402" "45.794848"]
  show ?thesis
    by (simp add: fresh_world_def)
qed

text \<open>
  C8 as stated fails: the answer below holds an end point and a non-empty flowline array,
  and the feature id returned is null.
\<close>

theorem snap_point_null_id_counterexample:
  "fst (get_epa_snap_point (\<lambda>k. snapped_without_id) (-121.634402) 45.794848 fresh_world) =
     Inr \<lparr>sp_geometry = Point (JNum (-121)) (JNum 45) 4326, sp_measure = JNum 40, sp_id = JNull\<rparr>"
  by (simp add: get_epa_snap_point_def get_epa_point_indexing_world and_then_Inr
        response_json_def snapped_without_id_def)

text \<open>
  The snap never reports "cannot snap": whatever the service answers, the function
  raises no \<open>TraceException\<close>, and what it returns is never falsy. The function that
  snaps and traces a reach of the table stops at its first test, before any request.
\<close>

lemma getitem_key_no_trace_exception: "getitem_key j k \<noteq> Inl (TraceException msg)"
  by (cases j) (auto split: option.splits)

lemma getitem_index_no_trace_exception: "getitem_index j i \<noteq> Inl (TraceException msg)"
  by (cases j) auto

lemma and_then_no_trace_exception:
  "m \<noteq> Inl (TraceException msg) \<Longrightarrow> (\<And>v. f v \<noteq> Inl (TraceException msg)) \<Longrightarrow>
   and_then m f \<noteq> Inl (TraceException msg)"
  by (cases m) (auto simp: and_then_def)

lemma get_epa_snap_point_never_trace_exception:
  "fst (get_epa_snap_point svc x y w) \<noteq> Inl (TraceException msg)"
proof (cases "response_json (svc (length (requests w)))")
  case (Inl e)
  then show ?thesis
    by (cases e) (auto simp: get_epa_snap_point_def get_epa_point_indexing_world response_json_def
        split: option.splits)
next
  case (Inr rjson)
  then show ?thesis
    by (simp add: get_epa_snap_point_def get_epa_point_indexing_world)
       (intro and_then_no_trace_exception getitem_key_no_trace_exception
          getitem_index_no_trace_exception, simp)
qed

lemma get_epa_snap_point_never_falsy:
  "fst (get_epa_snap_point svc x y w) = Inr p \<Longrightarrow> truthy_snap p"
  by (simp add: truthy_snap_def)

lemma get_geometries_from_sdf_by_reach_id_stops:
  "get_geometries_from_sdf_by_reach_id r svc sdf reach_id w =
     (case get_putin_from_sdf sdf reach_id of
        Inl e \<Rightarrow> (Inl e, w)
      | Inr putin \<Rightarrow>
          (case get_takeout_from_sdf sdf reach_id of
             Inl e \<Rightarrow> (Inl e, w)
           | Inr takeout \<Rightarrow> (Inl (UnboundLocalError ''epa_putin''), w)))"
  by (simp add: get_geometries_from_sdf_by_reach_id_def local_var_def split: sum.splits)

text \<open>
  C3 at its failing input: the table holds one put-in and one take-out of reach 2270 and
  the snapping service finds no candidate flowline. The function that snaps and traces
  the reach raises \<open>UnboundLocalError\<close> before it issues a request, and the snap
  itself raises \<open>TypeError\<close> on the service's answer; the claim expects a
  \<open>TraceException\<close> that names the put-in.
\<close>

theorem no_candidate_is_not_reported:
  "get_geometries_from_sdf_by_reach_id None (\<lambda>k. no_candidate) access_table (PInt 2270) fresh_world =
     (Inl (UnboundLocalError ''epa_putin''), fresh_world)
   \<and> get_epa_snap_point (\<lambda>k. no_candidate) (-121.634402) 45.794848 fresh_world =
     (Inl TypeError,
      \<lparr>requests = [(point_indexing_url, point_indexing_queryString (-121.634402) 45.794848 5 False)],
        stdout = []\<rparr>)"
proof
  show "get_geometries_from_sdf_by_reach_id None (\<lambda>k. no_candidate) access_table (PInt 2270) fresh_world =
     (Inl (UnboundLocalError ''epa_putin''), fresh_world)"
    by (simp add: get_geometries_from_sdf_by_reach_id_stops get_putin_from_sdf_def get_takeout_from_sdf_def
          get_access_from_sdf_def str_int_2270 access_rows_putin_2270 access_rows_takeout_2270)
  show "get_epa_snap_point (\<lambda>k. no_candidate) (-121.634402) 45.794848 fresh_world =
     (Inl TypeError,
      \<lparr>requests = [(point_indexing_url, point_indexing_queryString (-121.634402) 45.794848 5 False)],
        stdout = []\<rparr>)"
    by (simp add: get_epa_snap_point_def get_epa_point_indexing_world and_then_Inr and_then_Inl
          response_json_def no_candidate_def fresh_world_def)
qed

section \<open>The claim about the access table\<close>

lemma get_access_from_sdf_cases:
  assumes "access_type = PStr ''putin'' \<or> access_type = PStr ''takeout''"
  shows "get_access_from_sdf sdf reach_id access_type =
     (case access_rows sdf (PStr (py_str reach_id)) access_type of
        [] \<Rightarrow> Inl (TraceException (''does not have a '' @ py_str reach_id))
      | [row] \<Rightarrow> Inr row
      | _ \<Rightarrow> Inl (TraceException (''more than one '' @ py_str access_type @ '' exists'')))"
  using assms
  by (auto simp: get_access_from_sdf_def Let_def split: list.splits)

lemma records_for_reach_str_cells:
  assumes "\<forall>row \<in> set sdf. is_str (row_reach_id row)"
  shows "records_for_reach sdf reach_id access_type = access_rows sdf (PStr (py_str reach_id)) access_type"
  unfolding records_for_reach_def access_rows_def
proof (rule filter_cong[OF refl])
  fix row
  assume "row \<in> set sdf"
  with assms have "is_str (row_reach_id row)"
    by blast
  then show "(reads_as (row_reach_id row) (py_str reach_id) \<and> row_type row = access_type)
      = (row_reach_id row = PStr (py_str reach_id) \<and> row_type row = access_type)"
    by (cases "row_reach_id row") auto
qed

text \<open>
  C6, as amended. For every access table whose \<open>reach_id\<close> cells are strings, every
  reach id, and the access type put-in or take-out, the lookup returns a record exactly
  when the table holds exactly one record of that type for the reach id (and then
  returns that record); with none or several it raises \<open>TraceException\<close>. So where
  both lookups of a reach return, the reach has exactly one put-in and one take-out.
\<close>

theorem get_access_from_sdf_exactly_one:
  assumes "access_type = PStr ''putin'' \<or> access_type = PStr ''takeout''"
    and "\<forall>row \<in> set sdf. is_str (row_reach_id row)"
  shows "(get_access_from_sdf sdf reach_id access_type = Inr row
            \<longleftrightarrow> records_for_reach sdf reach_id access_type = [row])
       \<and> (length (records_for_reach sdf reach_id access_type) \<noteq> 1
            \<longrightarrow> (\<exists>msg. get_access_from_sdf sdf reach_id access_type = Inl (TraceException msg)))
       \<and> (get_putin_from_sdf sdf reach_id = Inr putin \<and> get_takeout_from_sdf sdf reach_id = Inr takeout
            \<longrightarrow> records_for_reach sdf reach_id (PStr ''putin'') = [putin]
              \<and> records_for_reach sdf reach_id (PStr ''takeout'') = [takeout])"
proof (intro conjI)
  note same = records_for_reach_str_cells[OF assms(2)]
  show "get_access_from_sdf sdf reach_id access_type = Inr row
        \<longleftrightarrow> records_for_reach sdf reach_id access_type = [row]"
    unfolding same
    by (auto simp: get_access_from_sdf_cases[OF assms(1)] split: list.splits)
  show "length (records_for_reach sdf reach_id access_type) \<noteq> 1
        \<longrightarrow> (\<exists>msg. get_access_from_sdf sdf reach_id access_type = Inl (TraceException msg))"
    unfolding same
    by (auto simp: get_access_from_sdf_cases[OF assms(1)] split: list.splits)
  show "get_putin_from_sdf sdf reach_id = Inr putin \<and> get_takeout_from_sdf sdf reach_id = Inr takeout
        \<longrightarrow> records_for_reach sdf reach_id (PStr ''putin'') = [putin]
          \<and> records_for_reach sdf reach_id (PStr ''takeout'') = [takeout]"
    unfolding same
    by (auto simp: get_putin_from_sdf_def get_takeout_from_sdf_def get_access_from_sdf_cases
          split: list.splits)
qed

theorem get_access_from_sdf_exactly_one_witness:
  "(PStr ''putin'' = PStr ''putin'' \<or> PStr ''putin'' = PStr ''takeout'')
   \<and> records_for_reach access_table (PInt 2270) (PStr ''putin'') = [putin_2270]
   \<and> get_access_from_sdf access_table (PInt 2270) (PStr ''putin'') = Inr putin_2270"
proof -
  have at: "PStr ''putin'' = PStr ''putin'' \<or> PStr ''putin'' = PStr ''takeout''"
    by simp
  have strs: "\<forall>row \<in> set access_table. is_str (row_reach_id row)"
    by (simp add: access_table_def putin_2270_def takeout_2270_def)
  have rows: "records_for_reach access_table (PInt 2270) (PStr ''putin'') = [putin_2270]"
    by (simp add: records_for_reach_def str_int_2270 access_table_def putin_2270_def takeout_2270_def)
  from get_access_from_sdf_exactly_one[OF at strs, of "PInt 2270" putin_2270] rows at
  show ?thesis
    by blast
qed

text \<open>
  C6 as stated fails on a table whose \<open>reach_id\<close> cells are \<open>int\<close>: exactly one
  put-in of reach 2270 exists, no cell equals the string \<open>'2270'\<close>, and the lookup
  raises \<open>TraceException\<close> instead of returning the record.
\<close>

theorem get_access_from_sdf_int_cells_counterexample:
  "records_for_reach int_access_table (PInt 2270) (PStr ''putin'') = [int_putin_2270]
   \<and> get_access_from_sdf int_access_table (PInt 2270) (PStr ''putin'')
       = Inl (TraceException ''does not have a 2270'')"
proof
  show "records_for_reach int_access_table (PInt 2270) (PStr ''putin'') = [int_putin_2270]"
    by (simp add: records_for_reach_def int_access_table_def int_putin_2270_def)
  have none: "access_rows int_access_table (PStr (py_str (PInt 2270))) (PStr ''putin'') = []"
    by (simp add: access_rows_def int_access_table_def int_putin_2270_def)
  show "get_access_from_sdf int_access_table (PInt 2270) (PStr ''putin'')
       = Inl (TraceException ''does not have a 2270'')"
    using none by (simp add: get_access_from_sdf_cases str_int_2270)
qed

section \<open>The claim about the publisher\<close>

lemma upsert_twice:
  "\<forall>f \<in> set new. feature_reach_id f = rid \<Longrightarrow> upsert rid new (upsert rid new coll) = upsert rid new coll"
  by (induction new) (auto simp: upsert_def)

text \<open>
  C7. Publishing the same Reach twice in succession leaves the line, centroid and point
  collections as publishing it once does.
\<close>

theorem publish_twice_is_publish_once:
  "publish rch (publish rch c) = publish rch c"
  by (simp add: publish_def upsert_twice)

end
